theory Spec2Isabelle
  imports Complex_Main
begin

section \<open>Exceptions and text\<close>

text \<open>
  The automation raises and catches Python exceptions. An exception is modelled by its
  class and the text that \<^verbatim>\<open>str(e)\<close> yields. Only classes below \<^verbatim>\<open>Exception\<close>
  are modelled: every handler of the source is \<^verbatim>\<open>except Exception\<close> or narrower.
  Strings are byte lists; the accented letters of the Portuguese messages are written
  as their UTF-8 bytes.
\<close>

datatype exn_kind =
  SAPConnectionError | ValueError | FileNotFoundError | AttributeError | OtherException

datatype exn = Exn (kind: exn_kind) (message: string)

definition a_acute :: string where "a_acute = [CHR 0xC3, CHR 0xA1]"
definition a_tilde :: string where "a_tilde = [CHR 0xC3, CHR 0xA3]"
definition e_acute :: string where "e_acute = [CHR 0xC3, CHR 0xA9]"
definition i_acute :: string where "i_acute = [CHR 0xC3, CHR 0xAD]"
definition o_acute :: string where "o_acute = [CHR 0xC3, CHR 0xB3]"
definition apostrophe :: string where "apostrophe = [CHR 0x27]"

text \<open>Decimal rendering of an integer, as an f-string renders \<^verbatim>\<open>{timeout_seconds}\<close>.\<close>

fun str_nat :: "nat \<Rightarrow> string" where
  "str_nat n =
     (if n < 10 then [''0123456789'' ! n]
      else str_nat (n div 10) @ [''0123456789'' ! (n mod 10)])"

declare str_nat.simps [simp del]

definition str_int :: "int \<Rightarrow> string" where
  "str_int i = (if i < 0 then ''-'' @ str_nat (nat (- i)) else str_nat (nat i))"

text \<open>
  \<^verbatim>\<open>needle in haystack\<close> on strings, and \<^verbatim>\<open>str.lower()\<close>. Lower-casing acts on
  the ASCII capitals and leaves every other byte alone; no other code point lower-cases
  to one of the letters of \<^verbatim>\<open>element\<close>, \<^verbatim>\<open>e\<close>, \<^verbatim>\<open>a\<close> or \<^verbatim>\<open>x\<close>, which are the
  only texts the source compares a lower-cased string with.
\<close>

fun starts_with :: "string \<Rightarrow> string \<Rightarrow> bool" where
  "starts_with [] hay = True"
| "starts_with (c # cs) [] = False"
| "starts_with (c # cs) (h # hay) = (c = h \<and> starts_with cs hay)"

fun str_contains :: "string \<Rightarrow> string \<Rightarrow> bool" where
  "str_contains needle [] = (needle = [])"
| "str_contains needle (h # hay) = (starts_with needle (h # hay) \<or> str_contains needle hay)"

definition lower_char :: "char \<Rightarrow> char" where
  "lower_char c =
     (case map_of (zip ''ABCDEFGHIJKLMNOPQRSTUVWXYZ'' ''abcdefghijklmnopqrstuvwxyz'') c of
        Some d \<Rightarrow> d
      | None \<Rightarrow> c)"

definition lower :: "string \<Rightarrow> string" where
  "lower s = map lower_char s"

subsection \<open>The messages of the raise statements\<close>

definition msg_exe_not_found :: "string \<Rightarrow> string" where
  "msg_exe_not_found path =
     ''Execut'' @ a_acute @ ''vel SAP n'' @ a_tilde @ ''o encontrado em '' @ path"

definition msg_open_unexpected :: "string \<Rightarrow> string" where
  "msg_open_unexpected erro = ''Erro inesperado ao tentar abrir o SAP Logon: '' @ erro"

definition msg_timeout :: "int \<Rightarrow> string" where
  "msg_timeout timeout_seconds =
     ''Timeout: SAP GUI Scripting Engine n'' @ a_tilde @ ''o ficou dispon'' @ i_acute
       @ ''vel em '' @ str_int timeout_seconds @ '' segundos.''"

definition msg_null_connection :: "string \<Rightarrow> string" where
  "msg_null_connection name =
     ''Falha ao abrir conex'' @ a_tilde @ ''o para o sistema '' @ name
       @ ''. Objeto de conex'' @ a_tilde @ ''o '' @ e_acute @ '' nulo.''"

definition msg_no_session :: "string \<Rightarrow> string" where
  "msg_no_session name =
     ''Nenhuma sess'' @ a_tilde @ ''o encontrada para a conex'' @ a_tilde @ ''o '' @ name
       @ '' ap'' @ o_acute @ ''s a abertura e espera.''"

definition msg_connect_error :: "string \<Rightarrow> string \<Rightarrow> string" where
  "msg_connect_error name erro = ''Erro ao conectar ao sistema SAP '' @ name @ '': '' @ erro"

definition msg_session_uninitialised :: string where
  "msg_session_uninitialised =
     ''Sess'' @ a_tilde @ ''o SAP n'' @ a_tilde @ ''o est'' @ a_acute
       @ '' inicializada para login.''"

definition msg_invalid_session :: string where
  "msg_invalid_session =
     ''Objeto de sess'' @ a_tilde @ ''o inv'' @ a_acute @ ''lido ou n'' @ a_tilde
       @ ''o suporta '' @ apostrophe @ ''findById'' @ apostrophe
       @ ''. Ocorreu um problema na conex'' @ a_tilde @ ''o.''"

definition msg_mandt_not_found :: string where
  "msg_mandt_not_found = ''Mandante n'' @ a_tilde @ ''o encontrado na tela''"

definition msg_login_status :: "string \<Rightarrow> string" where
  "msg_login_status error_message = ''Erro de login SAP: '' @ error_message"

definition msg_gui_element :: "string \<Rightarrow> string" where
  "msg_gui_element erro = ''Erro ao encontrar elemento da GUI durante o login: '' @ erro"

definition msg_login_unexpected :: "string \<Rightarrow> string" where
  "msg_login_unexpected erro = ''Erro inesperado durante o login SAP: '' @ erro"

text \<open>The text of the \<^verbatim>\<open>AttributeError\<close> that an attribute access on \<^verbatim>\<open>None\<close> raises.\<close>

definition msg_none_attribute :: "string \<Rightarrow> string" where
  "msg_none_attribute attr =
     apostrophe @ ''NoneType'' @ apostrophe @ '' object has no attribute ''
       @ apostrophe @ attr @ apostrophe"

subsection \<open>The fixed addresses of the login screen\<close>

definition mandt_id :: string where "mandt_id = ''wnd[0]/usr/txtRSYST-MANDT''"
definition bname_id :: string where "bname_id = ''wnd[0]/usr/txtRSYST-BNAME''"
definition bcode_id :: string where "bcode_id = ''wnd[0]/usr/pwdRSYST-BCODE''"
definition langu_id :: string where "langu_id = ''wnd[0]/usr/txtRSYST-LANGU''"
definition enter_id :: string where "enter_id = ''wnd[0]/tbar[0]/btn[0]''"
definition sbar_id :: string where "sbar_id = ''wnd[0]/sbar''"
definition wnd0_id :: string where "wnd0_id = ''wnd[0]''"
definition wnd1_id :: string where "wnd1_id = ''wnd[1]''"

section \<open>The automator, the external client and the world\<close>

text \<open>
  A handle is an opaque reference to an object of the external client; \<open>None\<close> is
  Python's \<^verbatim>\<open>None\<close> (every COM object is truthy, so truthiness is being non-null).
\<close>

type_synonym handle = nat

record automator =
  sap_exe_path :: string
  system_name :: string
  client :: string
  language :: string
  user :: string
  password :: string
  session :: "handle option"
  sap_gui_app :: "handle option"
  connection :: "handle option"

definition init_automator ::
  "string \<Rightarrow> string \<Rightarrow> string \<Rightarrow> string \<Rightarrow> string \<Rightarrow> string \<Rightarrow> automator" where
  "init_automator exe_path name cl lang usr pw =
     \<lparr>sap_exe_path = exe_path, system_name = name, client = cl, language = lang,
      user = usr, password = pw, session = None, sap_gui_app = None, connection = None\<rparr>"

text \<open>
  The external client is a stub: a script that fixes what each call of the source
  returns or raises. Calls inside a loop are scripted by the number of the iteration.
  \<open>Inl e\<close> and \<open>Some e\<close> (for calls without a result) mean that the call raises \<open>e\<close>.
\<close>

record stub =
  popen :: "string \<Rightarrow> exn option"
  get_object :: "nat \<Rightarrow> exn + handle option"
  get_object_time :: "nat \<Rightarrow> real"
  get_scripting_engine :: "exn + handle option"
  open_connection :: "string \<Rightarrow> exn + handle option"
  sessions_count :: "nat \<Rightarrow> exn + int"
  children :: "nat \<Rightarrow> exn + handle option"
  has_findById :: bool
  find_by_id :: "string \<Rightarrow> exn option"
  set_text :: "string \<Rightarrow> string \<Rightarrow> exn option"
  press :: "string \<Rightarrow> exn option"
  message_type :: "exn + string"
  status_text :: "exn + string"
  wnd1_lookup :: "nat \<Rightarrow> exn + handle option"
  send_vkey :: "nat \<Rightarrow> exn option"
  sbar_lookup :: "exn + handle option"
  close_window :: "exn option"
  close_connection_call :: "exn option"

text \<open>
  The world records every call made to the outside, in order, and carries the clock
  that \<^verbatim>\<open>time.time()\<close> reads. The source reads the clock in the polling loop of
  \<^verbatim>\<open>_open_sap_logon\<close> only, and between two readings it calls \<^verbatim>\<open>GetObject\<close> and
  \<^verbatim>\<open>time.sleep\<close>: the clock advances by the time each \<^verbatim>\<open>GetObject\<close> attempt takes
  (the stub's \<open>get_object_time\<close>) and by the argument of each \<^verbatim>\<open>time.sleep\<close>. Logging is
  not modelled.
\<close>

datatype event =
  Launch string
| Sleep nat
| GetObject
| GetScriptingEngine
| OpenConnection string
| SessionsCount
| Children nat
| HasAttr
| FindById string
| FindByIdNoRaise string
| SetText string string
| Press string
| ReadMessageType
| ReadText
| SendVKey nat
| CloseWindow
| CloseConnection

record world =
  now :: real
  trace :: "event list"

definition record_event :: "event \<Rightarrow> world \<Rightarrow> world" where
  "record_event ev w = w\<lparr>trace := trace w @ [ev]\<rparr>"

definition sleep :: "nat \<Rightarrow> world \<Rightarrow> world" where
  "sleep seconds w = w\<lparr>now := now w + real seconds, trace := trace w @ [Sleep seconds]\<rparr>"

definition take_time :: "real \<Rightarrow> world \<Rightarrow> world" where
  "take_time seconds w = w\<lparr>now := now w + seconds\<rparr>"

text \<open>A run of calls without results: each is made in turn, the first fault ends the run.\<close>

fun run_steps :: "(event \<times> exn option) list \<Rightarrow> world \<Rightarrow> exn option \<times> world" where
  "run_steps [] w = (None, w)"
| "run_steps ((ev, outcome) # rest) w =
     (case outcome of
        Some e \<Rightarrow> (Some e, record_event ev w)
      | None \<Rightarrow> run_steps rest (record_event ev w))"

section \<open>Readiness poller: \<^verbatim>\<open>_open_sap_logon\<close>\<close>

partial_function (option) poll_engine ::
  "stub \<Rightarrow> int \<Rightarrow> real \<Rightarrow> nat \<Rightarrow> automator \<Rightarrow> world \<Rightarrow> ((exn + unit) \<times> automator \<times> world) option"
where
  "poll_engine stub timeout_seconds start_time i a w =
     (if now w - start_time < real_of_int timeout_seconds then
        (let w1 = take_time (get_object_time stub i) (record_event GetObject w) in
         case get_object stub i of
           Inl e \<Rightarrow> poll_engine stub timeout_seconds start_time (Suc i) a (sleep 1 w1)
         | Inr app \<Rightarrow>
             (if app \<noteq> None
              then Some (Inr (), a\<lparr>sap_gui_app := app\<rparr>, w1)
              else poll_engine stub timeout_seconds start_time (Suc i)
                     (a\<lparr>sap_gui_app := app\<rparr>) w1))
      else Some (Inl (Exn SAPConnectionError (msg_timeout timeout_seconds)), a, w))"

declare poll_engine.simps [code]

definition open_sap_logon ::
  "stub \<Rightarrow> int \<Rightarrow> automator \<Rightarrow> world \<Rightarrow> ((exn + unit) \<times> automator \<times> world) option" where
  "open_sap_logon stub timeout_seconds a w =
     (let w1 = record_event (Launch (sap_exe_path a)) w in
      case popen stub (sap_exe_path a) of
        Some e \<Rightarrow>
          (if kind e = FileNotFoundError
           then Some (Inl (Exn SAPConnectionError (msg_exe_not_found (sap_exe_path a))), a, w1)
           else Some (Inl (Exn SAPConnectionError (msg_open_unexpected (message e))), a, w1))
      | None \<Rightarrow> poll_engine stub timeout_seconds (now w1) 0 a w1)"

section \<open>Connection opener: \<^verbatim>\<open>_connect_to_system\<close>\<close>

definition bind_child0 ::
  "stub \<Rightarrow> automator \<Rightarrow> world \<Rightarrow> (exn + unit) \<times> automator \<times> world" where
  "bind_child0 stub a w =
     (let w1 = record_event (Children 0) w in
      case children stub 0 of
        Inl e \<Rightarrow> (Inl e, a, w1)
      | Inr s \<Rightarrow> (Inr (), a\<lparr>session := s\<rparr>, w1))"

definition connect_body ::
  "stub \<Rightarrow> automator \<Rightarrow> world \<Rightarrow> (exn + unit) \<times> automator \<times> world" where
  "connect_body stub a w =
     (case sap_gui_app a of
        None \<Rightarrow> (Inl (Exn AttributeError (msg_none_attribute ''GetScriptingEngine'')), a, w)
      | Some gui \<Rightarrow>
          (let w1 = record_event GetScriptingEngine w in
           case get_scripting_engine stub of
             Inl e \<Rightarrow> (Inl e, a, w1)
           | Inr None \<Rightarrow>
               (Inl (Exn AttributeError (msg_none_attribute ''OpenConnection'')), a, w1)
           | Inr (Some application) \<Rightarrow>
               (let w2 = record_event (OpenConnection (system_name a)) w1 in
                case open_connection stub (system_name a) of
                  Inl e \<Rightarrow> (Inl e, a, w2)
                | Inr conn \<Rightarrow>
                    (let a1 = a\<lparr>connection := conn\<rparr> in
                     if conn = None
                     then (Inl (Exn SAPConnectionError (msg_null_connection (system_name a))),
                           a1, w2)
                     else
                       (let w3 = record_event SessionsCount w2 in
                        case sessions_count stub 0 of
                          Inl e \<Rightarrow> (Inl e, a1, w3)
                        | Inr n \<Rightarrow>
                            (if n > 0 then bind_child0 stub a1 w3
                             else
                               (let w4 = record_event SessionsCount (sleep 3 w3) in
                                case sessions_count stub 1 of
                                  Inl e \<Rightarrow> (Inl e, a1, w4)
                                | Inr m \<Rightarrow>
                                    (if m > 0 then bind_child0 stub a1 w4
                                     else (Inl (Exn SAPConnectionError
                                                  (msg_no_session (system_name a))),
                                           a1, w4)))))))))"

definition connect_to_system ::
  "stub \<Rightarrow> automator \<Rightarrow> world \<Rightarrow> (exn + unit) \<times> automator \<times> world" where
  "connect_to_system stub a w =
     (case connect_body stub a w of
        (Inl erro, a1, w1) \<Rightarrow>
          (Inl (Exn SAPConnectionError (msg_connect_error (system_name a) (message erro))), a1, w1)
      | (Inr u, a1, w1) \<Rightarrow> (Inr u, a1, w1))"

section \<open>Credential submitter: \<^verbatim>\<open>_login\<close>\<close>

definition login_body :: "stub \<Rightarrow> automator \<Rightarrow> world \<Rightarrow> (exn + unit) \<times> world" where
  "login_body stub a w =
     (let w0 = record_event HasAttr w in
      if \<not> has_findById stub then (Inl (Exn SAPConnectionError msg_invalid_session), w0)
      else
        (let w1 = record_event (FindById mandt_id) w0 in
         case find_by_id stub mandt_id of
           Some e \<Rightarrow> (Inl (Exn SAPConnectionError msg_mandt_not_found), w1)
         | None \<Rightarrow>
             (case run_steps
                 [(SetText mandt_id (client a), set_text stub mandt_id (client a)),
                  (FindById bname_id, find_by_id stub bname_id),
                  (SetText bname_id (user a), set_text stub bname_id (user a)),
                  (FindById bcode_id, find_by_id stub bcode_id),
                  (SetText bcode_id (password a), set_text stub bcode_id (password a)),
                  (FindById langu_id, find_by_id stub langu_id),
                  (SetText langu_id (language a), set_text stub langu_id (language a)),
                  (FindById enter_id, find_by_id stub enter_id),
                  (Press enter_id, press stub enter_id)] w1 of
                (Some e, w2) \<Rightarrow> (Inl e, w2)
              | (None, w2) \<Rightarrow>
                  (let w3 = record_event (FindById sbar_id) (sleep 1 w2) in
                   case find_by_id stub sbar_id of
                     Some e \<Rightarrow> (Inl e, w3)
                   | None \<Rightarrow>
                       (let w4 = record_event ReadMessageType w3 in
                        case message_type stub of
                          Inl e \<Rightarrow> (Inl e, w4)
                        | Inr ty \<Rightarrow>
                            (if lower ty \<in> set [''e'', ''a'', ''x'']
                             then
                               (let w5 = record_event ReadText w4 in
                                case status_text stub of
                                  Inl e \<Rightarrow> (Inl e, w5)
                                | Inr error_message \<Rightarrow>
                                    (Inl (Exn SAPConnectionError
                                            (msg_login_status error_message)), w5))
                             else (Inr (), w4)))))))"

definition login :: "stub \<Rightarrow> automator \<Rightarrow> world \<Rightarrow> (exn + unit) \<times> world" where
  "login stub a w =
     (if session a = None then (Inl (Exn SAPConnectionError msg_session_uninitialised), w)
      else
        (case login_body stub a w of
           (Inl erro, w1) \<Rightarrow>
             (if str_contains ''findById'' (message erro) \<or> str_contains ''element'' (lower (message erro))
              then (Inl (Exn ValueError (msg_gui_element (message erro))), w1)
              else (Inl (Exn SAPConnectionError (msg_login_unexpected (message erro))), w1))
         | (Inr u, w1) \<Rightarrow> (Inr u, w1)))"

section \<open>Orchestrator: \<^verbatim>\<open>initialize_connection\<close> and \<^verbatim>\<open>close_connection\<close>\<close>

definition initialize_body ::
  "stub \<Rightarrow> bool \<Rightarrow> automator \<Rightarrow> world \<Rightarrow> ((exn + handle option) \<times> automator \<times> world) option"
where
  "initialize_body stub open_new_logon a w =
     (case (if open_new_logon then open_sap_logon stub 30 a w else Some (Inr (), a, w)) of
        None \<Rightarrow> None
      | Some (Inl e, a1, w1) \<Rightarrow> Some (Inl e, a1, w1)
      | Some (Inr u, a1, w1) \<Rightarrow>
          (case connect_to_system stub a1 w1 of
             (Inl e, a2, w2) \<Rightarrow> Some (Inl e, a2, w2)
           | (Inr u, a2, w2) \<Rightarrow>
               (case login stub a2 w2 of
                  (Inl e, w3) \<Rightarrow> Some (Inl e, a2, w3)
                | (Inr u, w3) \<Rightarrow> Some (Inr (session a2), a2, w3))))"

definition initialize_connection ::
  "stub \<Rightarrow> bool \<Rightarrow> automator \<Rightarrow> world \<Rightarrow> ((exn + handle option) \<times> automator \<times> world) option"
where
  "initialize_connection stub open_new_logon a w =
     (case initialize_body stub open_new_logon a w of
        None \<Rightarrow> None
      | Some (Inl e, a1, w1) \<Rightarrow>
          Some (Inl e, a1\<lparr>session := None, connection := None, sap_gui_app := None\<rparr>, w1)
      | Some (Inr s, a1, w1) \<Rightarrow> Some (Inr s, a1, w1))"

definition close_body ::
  "stub \<Rightarrow> automator \<Rightarrow> world \<Rightarrow> (exn + unit) \<times> automator \<times> world" where
  "close_body stub a w =
     (case (if session a \<noteq> None
            then run_steps [(FindById wnd0_id, find_by_id stub wnd0_id),
                            (CloseWindow, close_window stub)] w
            else (None, w)) of
        (Some e, w1) \<Rightarrow> (Inl e, a, w1)
      | (None, w1) \<Rightarrow>
          (case (if connection a \<noteq> None
                 then run_steps [(CloseConnection, close_connection_call stub)] w1
                 else (None, w1)) of
             (Some e, w2) \<Rightarrow> (Inl e, a, w2)
           | (None, w2) \<Rightarrow> (Inr (), a\<lparr>session := None, connection := None\<rparr>, w2)))"

definition close_connection ::
  "stub \<Rightarrow> automator \<Rightarrow> world \<Rightarrow> (exn + unit) \<times> automator \<times> world" where
  "close_connection stub a w =
     (case close_body stub a w of
        (Inl e, a1, w1) \<Rightarrow> (Inr (), a1\<lparr>session := None, connection := None\<rparr>, w1)
      | (Inr u, a1, w1) \<Rightarrow> (Inr u, a1, w1))"

section \<open>Dialog drain loop: \<^verbatim>\<open>check_msgBox\<close>\<close>

text \<open>
  The loop has no bound in the source, so it is a partial function: \<open>None\<close> means that
  it never returns. The session is the caller's argument; a lookup on \<^verbatim>\<open>None\<close> raises.
\<close>

definition lookup_wnd1 :: "stub \<Rightarrow> handle option \<Rightarrow> nat \<Rightarrow> exn + handle option" where
  "lookup_wnd1 stub sess i =
     (case sess of
        None \<Rightarrow> Inl (Exn AttributeError (msg_none_attribute ''findById''))
      | Some s \<Rightarrow> wnd1_lookup stub i)"

text \<open>A lookup reaches the client only when there is a session object to call.\<close>

definition record_lookup :: "handle option \<Rightarrow> string \<Rightarrow> world \<Rightarrow> world" where
  "record_lookup sess addr w =
     (case sess of
        None \<Rightarrow> w
      | Some s \<Rightarrow> record_event (FindByIdNoRaise addr) w)"

partial_function (option) drain_loop ::
  "stub \<Rightarrow> handle option \<Rightarrow> nat \<Rightarrow> bool \<Rightarrow> world \<Rightarrow> ((exn + unit) \<times> bool \<times> world) option"
where
  "drain_loop stub sess i msg_handled w =
     (let w1 = record_lookup sess wnd1_id w in
      case lookup_wnd1 stub sess i of
        Inl e \<Rightarrow> Some (Inl e, msg_handled, w1)
      | Inr None \<Rightarrow> Some (Inr (), msg_handled, w1)
      | Inr (Some msgBox) \<Rightarrow>
          (let w2 = record_event (SendVKey 0) w1 in
           case send_vkey stub i of
             Some e \<Rightarrow> Some (Inl e, msg_handled, w2)
           | None \<Rightarrow> drain_loop stub sess (Suc i) True w2))"

declare drain_loop.simps [code]

text \<open>
  The handler of the loop reads the status line for the log entry, inside a handler of
  its own that swallows everything.
\<close>

definition read_sbar :: "stub \<Rightarrow> handle option \<Rightarrow> world \<Rightarrow> world" where
  "read_sbar stub sess w =
     (let w1 = record_lookup sess sbar_id w in
      case sess of
        None \<Rightarrow> w1
      | Some s \<Rightarrow>
          (case sbar_lookup stub of
             Inr (Some sbar) \<Rightarrow> record_event ReadText w1
           | _ \<Rightarrow> w1))"

definition check_msgBox ::
  "stub \<Rightarrow> handle option \<Rightarrow> world \<Rightarrow> ((exn + bool) \<times> world) option" where
  "check_msgBox stub sess w =
     (case drain_loop stub sess 0 False w of
        None \<Rightarrow> None
      | Some (Inl e, msg_handled, w1) \<Rightarrow> Some (Inr msg_handled, read_sbar stub sess w1)
      | Some (Inr u, msg_handled, w1) \<Rightarrow> Some (Inr msg_handled, w1))"

section \<open>Observations and stubs\<close>

text \<open>What a trace shows: the confirmation keys sent and the writes to the login screen.\<close>

fun is_key_send :: "event \<Rightarrow> bool" where
  "is_key_send (SendVKey k) = True"
| "is_key_send ev = False"

definition key_sends :: "world \<Rightarrow> nat" where
  "key_sends w = length (filter is_key_send (trace w))"

text \<open>The confirmation key is virtual key 0 (Enter).\<close>

definition confirmation_keys :: "world \<Rightarrow> nat" where
  "confirmation_keys w = count_list (trace w) (SendVKey 0)"

fun is_write :: "event \<Rightarrow> bool" where
  "is_write (SetText addr v) = True"
| "is_write (Press addr) = True"
| "is_write ev = False"

definition writes :: "world \<Rightarrow> event list" where
  "writes w = filter is_write (trace w)"

text \<open>
  Check \<open>j\<close> of the drain loop finds the modal window; the loop goes on after check \<open>j\<close>
  when it finds the window and the key-send that follows does not raise.
\<close>

definition modal_present :: "stub \<Rightarrow> handle option \<Rightarrow> nat \<Rightarrow> bool" where
  "modal_present stub sess j =
     (case lookup_wnd1 stub sess j of Inr (Some msgBox) \<Rightarrow> True | _ \<Rightarrow> False)"

definition keeps_going :: "stub \<Rightarrow> handle option \<Rightarrow> nat \<Rightarrow> bool" where
  "keeps_going stub sess j = (modal_present stub sess j \<and> send_vkey stub j = None)"

text \<open>The world after \<open>n\<close> rounds of the drain loop.\<close>

definition drained :: "nat \<Rightarrow> world \<Rightarrow> world" where
  "drained n w =
     w\<lparr>trace := trace w @ concat (replicate n [FindByIdNoRaise wnd1_id, SendVKey 0])\<rparr>"

text \<open>
  One iteration of the polling loop on an engine that is not ready: the attempt, and the
  one-second sleep when the attempt raised. \<open>polled n\<close> is the world after the first \<open>n\<close>
  iterations, \<open>polled_automator n\<close> the automator: an attempt that returned a falsy object
  has stored it in the engine handle.
\<close>

definition iteration_time :: "stub \<Rightarrow> nat \<Rightarrow> real" where
  "iteration_time stub i =
     get_object_time stub i + (case get_object stub i of Inl e \<Rightarrow> 1 | Inr app \<Rightarrow> 0)"

definition iteration_events :: "stub \<Rightarrow> nat \<Rightarrow> event list" where
  "iteration_events stub i =
     GetObject # (case get_object stub i of Inl e \<Rightarrow> [Sleep 1] | Inr app \<Rightarrow> [])"

definition polled :: "stub \<Rightarrow> nat \<Rightarrow> world \<Rightarrow> world" where
  "polled stub n w =
     w\<lparr>now := now w + (\<Sum>i<n. iteration_time stub i),
       trace := trace w @ concat (map (iteration_events stub) [0..<n])\<rparr>"

definition polled_automator :: "stub \<Rightarrow> nat \<Rightarrow> automator \<Rightarrow> automator" where
  "polled_automator stub n a =
     (if \<exists>i<n. get_object stub i = Inr None then a\<lparr>sap_gui_app := None\<rparr> else a)"

text \<open>The login screen is as expected: every lookup, write and press succeeds.\<close>

definition screen_ok :: "stub \<Rightarrow> automator \<Rightarrow> bool" where
  "screen_ok stub a =
     (has_findById stub
      \<and> find_by_id stub mandt_id = None \<and> set_text stub mandt_id (client a) = None
      \<and> find_by_id stub bname_id = None \<and> set_text stub bname_id (user a) = None
      \<and> find_by_id stub bcode_id = None \<and> set_text stub bcode_id (password a) = None
      \<and> find_by_id stub langu_id = None \<and> set_text stub langu_id (language a) = None
      \<and> find_by_id stub enter_id = None \<and> press stub enter_id = None
      \<and> find_by_id stub sbar_id = None)"

subsection \<open>Concrete automators, worlds and stubs\<close>

definition world0 :: world where
  "world0 = \<lparr>now = 0, trace = []\<rparr>"

definition automator0 :: automator where
  "automator0 =
     init_automator ''C:/SAP/saplogon.exe'' ''PRD'' ''300'' ''PT'' ''robot'' ''secret''"

definition engine_ready0 :: automator where
  "engine_ready0 = automator0\<lparr>sap_gui_app := Some 1\<rparr>"

definition connected0 :: automator where
  "connected0 = automator0\<lparr>session := Some 4, sap_gui_app := Some 1, connection := Some 3\<rparr>"

text \<open>A client on which every call succeeds at once and no dialog is open.\<close>

definition ready_stub :: stub where
  "ready_stub =
     \<lparr>popen = (\<lambda>path. None),
      get_object = (\<lambda>i. Inr (Some 1)),
      get_object_time = (\<lambda>i. 0),
      get_scripting_engine = Inr (Some 2),
      open_connection = (\<lambda>name. Inr (Some 3)),
      sessions_count = (\<lambda>i. Inr 1),
      children = (\<lambda>i. Inr (Some 4)),
      has_findById = True,
      find_by_id = (\<lambda>addr. None),
      set_text = (\<lambda>addr v. None),
      press = (\<lambda>addr. None),
      message_type = Inr ''S'',
      status_text = Inr [],
      wnd1_lookup = (\<lambda>i. Inr None),
      send_vkey = (\<lambda>i. None),
      sbar_lookup = Inr (Some 5),
      close_window = None,
      close_connection_call = None\<rparr>"

text \<open>The fault of the client's scripting interface for an address that does not resolve.\<close>

definition com_fault :: exn where
  "com_fault = Exn OtherException ''The control could not be found by id.''"

definition lookup_fault_stub :: "string \<Rightarrow> stub" where
  "lookup_fault_stub addr =
     ready_stub\<lparr>find_by_id := (\<lambda>a. if a = addr then Some com_fault else None)\<rparr>"

definition rejecting_stub :: "string \<Rightarrow> string \<Rightarrow> stub" where
  "rejecting_stub ty txt = ready_stub\<lparr>message_type := Inr ty, status_text := Inr txt\<rparr>"

definition never_ready_stub :: stub where
  "never_ready_stub =
     ready_stub\<lparr>get_object := (\<lambda>i. Inl (Exn OtherException ''Operation unavailable''))\<rparr>"

text \<open>Never ready, and each attempt blocks for 0.6 seconds before it raises.\<close>

definition slow_never_ready_stub :: stub where
  "slow_never_ready_stub = never_ready_stub\<lparr>get_object_time := (\<lambda>i. 3 / 5)\<rparr>"

text \<open>Never ready: each attempt returns a falsy object after half a second.\<close>

definition falsy_engine_stub :: stub where
  "falsy_engine_stub =
     ready_stub\<lparr>get_object := (\<lambda>i. Inr None), get_object_time := (\<lambda>i. 1 / 2)\<rparr>"

definition null_connection_stub :: stub where
  "null_connection_stub = ready_stub\<lparr>open_connection := (\<lambda>name. Inr None)\<rparr>"

definition late_session_stub :: stub where
  "late_session_stub =
     ready_stub\<lparr>sessions_count := (\<lambda>i. if i = 0 then Inr 0 else Inr 1)\<rparr>"

definition no_session_stub :: stub where
  "no_session_stub = ready_stub\<lparr>sessions_count := (\<lambda>i. Inr 0)\<rparr>"

definition two_dialogs_stub :: stub where
  "two_dialogs_stub =
     ready_stub\<lparr>wnd1_lookup := (\<lambda>i. if i < 2 then Inr (Some 6) else Inr None)\<rparr>"

definition persistent_dialog_stub :: stub where
  "persistent_dialog_stub = ready_stub\<lparr>wnd1_lookup := (\<lambda>i. Inr (Some 6))\<rparr>"

definition failing_cleanup_stub :: stub where
  "failing_cleanup_stub =
     ready_stub\<lparr>wnd1_lookup := (\<lambda>i. if i < 2 then Inr (Some 6) else Inl com_fault),
                close_window := Some com_fault,
                close_connection_call := Some com_fault\<rparr>"

section \<open>Properties\<close>

lemmas string_eval =
  lower_def lower_char_def a_acute_def a_tilde_def e_acute_def i_acute_def o_acute_def
  apostrophe_def

subsection \<open>The orchestrator\<close>

lemma connect_without_engine:
  "sap_gui_app a = None \<Longrightarrow>
   connect_to_system stub a w =
     (Inl (Exn SAPConnectionError
             (msg_connect_error (system_name a) (msg_none_attribute ''GetScriptingEngine''))),
      a, w)"
  by (simp add: connect_to_system_def connect_body_def)

text \<open>
  C10. \<^verbatim>\<open>initialize_connection(open_new_logon=False)\<close> on a freshly constructed
  automator, whatever the external client does: the attribute access on the null engine
  handle is caught by the opener and wrapped, so the call fails with a
  \<^verbatim>\<open>SAPConnectionError\<close>, and the three handles are null afterwards.
\<close>

theorem initialize_without_engine:
  "\<exists>a'. initialize_connection stub False (init_automator exe_path name cl lang usr pw) w =
          Some (Inl (Exn SAPConnectionError
                       (msg_connect_error name (msg_none_attribute ''GetScriptingEngine''))),
                a', w)
        \<and> session a' = None \<and> connection a' = None \<and> sap_gui_app a' = None"
  by (simp add: initialize_connection_def initialize_body_def connect_without_engine
      init_automator_def)

text \<open>
  C1. A fault \<open>e\<close> is raised during \<^verbatim>\<open>initialize_connection\<close> by the readiness poller
  (when a new logon is opened), by the connection opener, or by the credential submitter,
  leaving the world \<open>w'\<close>, exactly when \<^verbatim>\<open>initialize_connection\<close> ends with that same
  exception \<open>e\<close> (same class, same message) in that world; and then the session handle,
  the connection handle and the engine handle are all null.
\<close>

theorem initialize_failure_tears_down:
  "((open_new_logon \<and> (\<exists>a1. open_sap_logon stub 30 a w = Some (Inl e, a1, w')))
    \<or> (\<exists>a1 w1 a2.
          (if open_new_logon then open_sap_logon stub 30 a w else Some (Inr (), a, w))
            = Some (Inr (), a1, w1)
          \<and> connect_to_system stub a1 w1 = (Inl e, a2, w'))
    \<or> (\<exists>a1 w1 a2 w2.
          (if open_new_logon then open_sap_logon stub 30 a w else Some (Inr (), a, w))
            = Some (Inr (), a1, w1)
          \<and> connect_to_system stub a1 w1 = (Inr (), a2, w2)
          \<and> login stub a2 w2 = (Inl e, w')))
   = (\<exists>a'. initialize_connection stub open_new_logon a w = Some (Inl e, a', w')
          \<and> session a' = None \<and> connection a' = None \<and> sap_gui_app a' = None)"
  apply (cases open_new_logon)
   apply (auto simp: initialize_connection_def initialize_body_def
      split: option.splits sum.splits prod.splits)
  done

text \<open>
  An instance: the engine is obtained at the first poll and the connection opens, but no
  session appears. The opener fails while the engine and connection handles are set;
  the orchestrator re-raises the opener's exception and leaves no handle behind.
\<close>

theorem initialize_failure_tears_down_witness:
  "\<exists>a'. initialize_connection no_session_stub True automator0 world0 =
          Some (Inl (Exn SAPConnectionError (msg_connect_error ''PRD'' (msg_no_session ''PRD''))),
                a',
                \<lparr>now = 3, trace = [Launch ''C:/SAP/saplogon.exe'', GetObject,
                   GetScriptingEngine, OpenConnection ''PRD'', SessionsCount, Sleep 3,
                   SessionsCount]\<rparr>)
        \<and> session a' = None \<and> connection a' = None \<and> sap_gui_app a' = None"
proof -
  have poll: "open_sap_logon no_session_stub 30 automator0 world0 =
      Some (Inr (), engine_ready0,
            \<lparr>now = 0, trace = [Launch ''C:/SAP/saplogon.exe'', GetObject]\<rparr>)"
    by (simp add: open_sap_logon_def poll_engine.simps no_session_stub_def ready_stub_def
        automator0_def init_automator_def world0_def record_event_def take_time_def Let_def
        engine_ready0_def)
  have conn: "connect_to_system no_session_stub engine_ready0
        \<lparr>now = 0, trace = [Launch ''C:/SAP/saplogon.exe'', GetObject]\<rparr> =
      (Inl (Exn SAPConnectionError (msg_connect_error ''PRD'' (msg_no_session ''PRD''))),
       engine_ready0\<lparr>connection := Some 3\<rparr>,
       \<lparr>now = 3, trace = [Launch ''C:/SAP/saplogon.exe'', GetObject,
                   GetScriptingEngine, OpenConnection ''PRD'', SessionsCount, Sleep 3,
                   SessionsCount]\<rparr>)"
    by (simp add: connect_to_system_def connect_body_def Let_def no_session_stub_def
        ready_stub_def engine_ready0_def automator0_def init_automator_def record_event_def
        sleep_def)
  show ?thesis
    using initialize_failure_tears_down [where open_new_logon = True
        and stub = no_session_stub and a = automator0 and w = world0, symmetric] poll conn
    by simp
qed

lemma close_connection_result:
  "\<exists>w'. close_connection stub a w = (Inr (), a\<lparr>session := None, connection := None\<rparr>, w')"
  by (auto simp: close_connection_def close_body_def split: prod.splits option.splits sum.splits)

subsection \<open>The readiness poller\<close>

text \<open>
  While the engine is not ready and the deadline is not reached, the loop goes from one
  iteration to the next; at the first reading of the clock that is not before the
  deadline it raises the timeout.
\<close>

lemma polled_0: "polled stub 0 w = w"
  by (simp add: polled_def)

lemma polled_Suc_raise:
  "get_object stub n = Inl e \<Longrightarrow>
   sleep (Suc 0) (take_time (get_object_time stub n) (record_event GetObject (polled stub n w))) =
   polled stub (Suc n) w"
  by (simp add: polled_def sleep_def take_time_def record_event_def iteration_time_def
      iteration_events_def)

lemma polled_Suc_falsy:
  "get_object stub n = Inr None \<Longrightarrow>
   take_time (get_object_time stub n) (record_event GetObject (polled stub n w)) =
   polled stub (Suc n) w"
  by (simp add: polled_def take_time_def record_event_def iteration_time_def
      iteration_events_def)

lemma polled_automator_Suc_raise:
  "get_object stub n = Inl e \<Longrightarrow> polled_automator stub (Suc n) a = polled_automator stub n a"
  by (auto simp: polled_automator_def less_Suc_eq)

lemma polled_automator_Suc_falsy:
  "get_object stub n = Inr None \<Longrightarrow>
   polled_automator stub (Suc n) a = (polled_automator stub n a)\<lparr>sap_gui_app := None\<rparr>"
  by (auto simp: polled_automator_def less_Suc_eq)

lemma poll_engine_prefix:
  assumes never: "\<forall>i. (\<exists>e. get_object stub i = Inl e) \<or> get_object stub i = Inr None"
  shows "(\<forall>j<n. now (polled stub j w) - start < real_of_int T) \<Longrightarrow>
         poll_engine stub T start 0 a w =
         poll_engine stub T start n (polled_automator stub n a) (polled stub n w)"
proof (induction n)
  case 0
  show ?case by (simp add: polled_0 polled_automator_def)
next
  case (Suc n)
  have before: "now (polled stub n w) - start < real_of_int T"
    using Suc.prems by simp
  have "poll_engine stub T start n (polled_automator stub n a) (polled stub n w) =
        poll_engine stub T start (Suc n) (polled_automator stub (Suc n) a) (polled stub (Suc n) w)"
  proof (cases "get_object stub n")
    case (Inl e)
    then show ?thesis
      using before
      by (subst poll_engine.simps)
         (simp add: Let_def polled_Suc_raise polled_automator_Suc_raise)
  next
    case (Inr app)
    then have falsy: "get_object stub n = Inr None" using never by (metis sum.distinct(1))
    then show ?thesis
      using before
      by (subst poll_engine.simps)
         (simp add: Let_def polled_Suc_falsy polled_automator_Suc_falsy)
  qed
  then show ?case using Suc by simp
qed

lemma poll_engine_deadline:
  "\<not> now w - start < real_of_int T \<Longrightarrow>
   poll_engine stub T start i a w =
     Some (Inl (Exn SAPConnectionError (msg_timeout T)), a, w)"
  by (subst poll_engine.simps) simp

lemma iterations_reach_deadline:
  assumes "0 < \<delta>" and "\<forall>i. \<delta> \<le> iteration_time stub i"
  shows "\<exists>n. real_of_int T \<le> (\<Sum>i<n. iteration_time stub i)"
proof -
  obtain n where n: "real_of_int T < real n * \<delta>"
    using reals_Archimedean3 [OF assms(1)] by blast
  have "real n * \<delta> = (\<Sum>i<n. \<delta>)" by simp
  also have "\<dots> \<le> (\<Sum>i<n. iteration_time stub i)"
    using assms(2) by (intro sum_mono) simp
  finally show ?thesis using n by (intro exI [of _ n]) linarith
qed

lemma poll_engine_times_out:
  assumes never: "\<forall>i. (\<exists>e. get_object stub i = Inl e) \<or> get_object stub i = Inr None"
    and pos: "0 < \<delta>" and progress: "\<forall>i. \<delta> \<le> iteration_time stub i"
  shows "\<exists>n. poll_engine stub T (now w) 0 a w =
               Some (Inl (Exn SAPConnectionError (msg_timeout T)),
                     polled_automator stub n a, polled stub n w)
            \<and> real_of_int T \<le> (\<Sum>i<n. iteration_time stub i)
            \<and> (\<forall>j<n. (\<Sum>i<j. iteration_time stub i) < real_of_int T)"
proof -
  define reached where "reached n = (real_of_int T \<le> (\<Sum>i<n. iteration_time stub i))" for n
  define N where "N = (LEAST n. reached n)"
  have "\<exists>n. reached n"
    unfolding reached_def using iterations_reach_deadline [OF pos progress] .
  then have at: "reached N" unfolding N_def by (metis LeastI)
  have before: "\<forall>j<N. \<not> reached j" unfolding N_def using not_less_Least by blast
  have elapsed: "\<And>n. now (polled stub n w) - now w = (\<Sum>i<n. iteration_time stub i)"
    by (simp add: polled_def)
  have "\<forall>j<N. now (polled stub j w) - now w < real_of_int T"
    using before by (simp add: elapsed reached_def not_le)
  then have "poll_engine stub T (now w) 0 a w =
        poll_engine stub T (now w) N (polled_automator stub N a) (polled stub N w)"
    by (rule poll_engine_prefix [OF never])
  moreover have "\<not> now (polled stub N w) - now w < real_of_int T"
    using at by (simp add: elapsed reached_def)
  ultimately have "poll_engine stub T (now w) 0 a w =
        Some (Inl (Exn SAPConnectionError (msg_timeout T)),
              polled_automator stub N a, polled stub N w)"
    by (simp add: poll_engine_deadline)
  then show ?thesis
    using at before by (intro exI [of _ N]) (simp add: reached_def not_le)
qed

text \<open>
  C9. As stated (failure within one poll interval of \<open>T\<close>) the claim fails when the
  attempts themselves take time: the loop reads the clock only between iterations, so the
  failure comes later than \<open>T\<close> by up to the time of a whole iteration. What holds, for
  every timeout \<open>T\<close>, when the executable starts, every attempt to obtain the engine
  raises or returns a falsy object, and every iteration takes at least some fixed
  positive time: \<^verbatim>\<open>_open_sap_logon\<close> returns (it does not poll for ever) and fails with
  the timeout \<^verbatim>\<open>SAPConnectionError\<close>; the failure comes never before \<open>T\<close> seconds after
  the start, and after \<open>T\<close> by less than the time of the last iteration (the last attempt,
  plus the one-second sleep when it raised); with \<open>T \<le> 0\<close> no attempt is made. Every
  attempt that raised was followed by a one-second sleep and the next reading of the
  clock; none of the attempts' exceptions is surfaced.
\<close>

theorem open_sap_logon_times_out:
  assumes launch: "popen stub (sap_exe_path a) = None"
    and never: "\<forall>i. (\<exists>e. get_object stub i = Inl e) \<or> get_object stub i = Inr None"
    and pos: "0 < \<delta>" and progress: "\<forall>i. \<delta> \<le> iteration_time stub i"
  shows "\<exists>n w'. open_sap_logon stub T a w =
                 Some (Inl (Exn SAPConnectionError (msg_timeout T)),
                       polled_automator stub n a, w')
            \<and> real_of_int T \<le> now w' - now w
            \<and> (0 < n \<longrightarrow> now w' - now w < real_of_int T + iteration_time stub (n - 1))
            \<and> (n = 0) = (T \<le> 0)
            \<and> now w' - now w = (\<Sum>i<n. iteration_time stub i)
            \<and> trace w' =
                trace w @ Launch (sap_exe_path a) # concat (map (iteration_events stub) [0..<n])"
proof -
  define w1 where "w1 = record_event (Launch (sap_exe_path a)) w"
  have now1: "now w1 = now w" by (simp add: w1_def record_event_def)
  obtain n where
    r: "poll_engine stub T (now w1) 0 a w1 =
          Some (Inl (Exn SAPConnectionError (msg_timeout T)),
                polled_automator stub n a, polled stub n w1)"
    and reach: "real_of_int T \<le> (\<Sum>i<n. iteration_time stub i)"
    and before: "\<forall>j<n. (\<Sum>i<j. iteration_time stub i) < real_of_int T"
    using poll_engine_times_out [OF never pos progress, of T w1 a] by blast
  have res: "open_sap_logon stub T a w =
          Some (Inl (Exn SAPConnectionError (msg_timeout T)),
                polled_automator stub n a, polled stub n w1)"
    using launch r by (simp add: open_sap_logon_def w1_def Let_def)
  have elapsed: "now (polled stub n w1) - now w = (\<Sum>i<n. iteration_time stub i)"
    by (simp add: polled_def now1)
  have last: "0 < n \<longrightarrow> (\<Sum>i<n. iteration_time stub i) < real_of_int T + iteration_time stub (n - 1)"
  proof
    assume "0 < n"
    then obtain m where m: "n = Suc m" by (cases n) auto
    then have "(\<Sum>i<m. iteration_time stub i) < real_of_int T" using before by simp
    then show "(\<Sum>i<n. iteration_time stub i) < real_of_int T + iteration_time stub (n - 1)"
      using m by simp
  qed
  have zero: "(n = 0) = (T \<le> 0)"
  proof
    assume "n = 0" then show "T \<le> 0" using reach by simp
  next
    assume "T \<le> 0"
    show "n = 0"
    proof (rule ccontr)
      assume "n \<noteq> 0"
      then have "(\<Sum>i<0. iteration_time stub i) < real_of_int T" using before by blast
      then show False using \<open>T \<le> 0\<close> by simp
    qed
  qed
  have tr: "trace (polled stub n w1) =
      trace w @ Launch (sap_exe_path a) # concat (map (iteration_events stub) [0..<n])"
    by (simp add: polled_def w1_def record_event_def)
  show ?thesis
    using res reach last zero tr elapsed
    by (intro exI [of _ n] exI [of _ "polled stub n w1"]) simp
qed

theorem open_sap_logon_times_out_witness:
  "\<exists>w'. open_sap_logon never_ready_stub 3 automator0 world0 =
          Some (Inl (Exn SAPConnectionError (msg_timeout 3)), automator0, w')
        \<and> 3 \<le> now w' - now world0 \<and> now w' - now world0 < 3 + 1"
proof -
  have launch: "popen never_ready_stub (sap_exe_path automator0) = None"
    by (simp add: never_ready_stub_def ready_stub_def)
  have never: "\<forall>i. (\<exists>e. get_object never_ready_stub i = Inl e)
                 \<or> get_object never_ready_stub i = Inr None"
    by (simp add: never_ready_stub_def)
  have time: "\<And>i. iteration_time never_ready_stub i = 1"
    by (simp add: iteration_time_def never_ready_stub_def ready_stub_def)
  have same: "\<And>n. polled_automator never_ready_stub n automator0 = automator0"
    by (simp add: polled_automator_def never_ready_stub_def)
  have progress: "\<forall>i. 1 \<le> iteration_time never_ready_stub i"
    by (simp add: time)
  obtain n w' where
    r: "open_sap_logon never_ready_stub 3 automator0 world0 =
          Some (Inl (Exn SAPConnectionError (msg_timeout 3)),
                polled_automator never_ready_stub n automator0, w')"
    and lo: "real_of_int 3 \<le> now w' - now world0"
    and hi: "0 < n \<longrightarrow> now w' - now world0 < real_of_int 3 + iteration_time never_ready_stub (n - 1)"
    and zero: "(n = 0) = ((3::int) \<le> 0)"
    using open_sap_logon_times_out [OF launch never zero_less_one progress, of 3 world0]
    by blast
  have "0 < n" using zero by simp
  then show ?thesis
    using r lo hi by (intro exI [of _ w']) (simp add: same time)
qed

text \<open>
  Timeout 2 with attempts that block for 0.6 seconds before they raise: the failure comes
  3.2 seconds after the start, more than one poll interval after the timeout.
\<close>

theorem open_sap_logon_slow_attempts:
  "open_sap_logon slow_never_ready_stub 2 automator0 world0 =
     Some (Inl (Exn SAPConnectionError (msg_timeout 2)), automator0,
           \<lparr>now = 16 / 5,
            trace = [Launch ''C:/SAP/saplogon.exe'', GetObject, Sleep 1, GetObject, Sleep 1]\<rparr>)
   \<and> (2::real) + 1 < 16 / 5"
  by (simp add: open_sap_logon_def poll_engine.simps slow_never_ready_stub_def
      never_ready_stub_def ready_stub_def automator0_def init_automator_def world0_def
      record_event_def take_time_def sleep_def Let_def)

text \<open>An engine that returns a falsy object: no sleep, and the timeout all the same.\<close>

lemma open_sap_logon_falsy_engine:
  "open_sap_logon falsy_engine_stub 1 automator0 world0 =
     Some (Inl (Exn SAPConnectionError (msg_timeout 1)), automator0,
           \<lparr>now = 1, trace = [Launch ''C:/SAP/saplogon.exe'', GetObject, GetObject]\<rparr>)"
  by (simp add: open_sap_logon_def poll_engine.simps falsy_engine_stub_def
      ready_stub_def automator0_def init_automator_def world0_def
      record_event_def take_time_def sleep_def Let_def)

text \<open>
  When every attempt raises at once, the failure comes exactly \<open>max 0 T\<close> seconds after
  the start, after \<open>nat T\<close> attempts.
\<close>

lemma open_sap_logon_instant_attempts:
  assumes launch: "popen stub (sap_exe_path a) = None"
    and throws: "\<forall>i. \<exists>e. get_object stub i = Inl e"
    and instant: "\<forall>i. get_object_time stub i = 0"
  shows "\<exists>w'. open_sap_logon stub T a w =
                 Some (Inl (Exn SAPConnectionError (msg_timeout T)), a, w')
            \<and> now w' - now w = real_of_int (max 0 T)
            \<and> trace w' =
                trace w @ Launch (sap_exe_path a) # concat (replicate (nat T) [GetObject, Sleep 1])"
proof -
  define w1 where "w1 = record_event (Launch (sap_exe_path a)) w"
  have raises: "\<And>i. \<exists>e. get_object stub i = Inl e"
    using throws by blast
  have time: "\<And>i. iteration_time stub i = 1"
    using raises instant by (metis (mono_tags) iteration_time_def add_0 sum.case(1))
  have events: "\<And>i. iteration_events stub i = [GetObject, Sleep 1]"
    using raises by (metis (mono_tags) iteration_events_def sum.case(1))
  have same: "\<And>n. polled_automator stub n a = a"
    using raises by (metis (mono_tags) polled_automator_def sum.distinct(1))
  have never: "\<forall>i. (\<exists>e. get_object stub i = Inl e) \<or> get_object stub i = Inr None"
    using throws by blast
  have progress: "\<forall>i. 1 \<le> iteration_time stub i" by (simp add: time)
  obtain n where
    r: "poll_engine stub T (now w1) 0 a w1 =
          Some (Inl (Exn SAPConnectionError (msg_timeout T)),
                polled_automator stub n a, polled stub n w1)"
    and reach: "real_of_int T \<le> (\<Sum>i<n. iteration_time stub i)"
    and before: "\<forall>j<n. (\<Sum>i<j. iteration_time stub i) < real_of_int T"
    using poll_engine_times_out [OF never zero_less_one progress, of T w1 a] by blast
  have le: "T \<le> int n" using reach by (simp add: time)
  have lt: "\<forall>j<n. int j < T"
  proof (intro allI impI)
    fix j assume "j < n"
    then have "real_of_int (int j) < real_of_int T" using before by (simp add: time)
    then show "int j < T" by (simp only: of_int_less_iff)
  qed
  have n: "n = nat T"
  proof (cases n)
    case 0
    then show ?thesis using le by simp
  next
    case (Suc m)
    then have "int m < T" using lt by simp
    then show ?thesis using le Suc by linarith
  qed
  have "open_sap_logon stub T a w =
          Some (Inl (Exn SAPConnectionError (msg_timeout T)), a, polled stub (nat T) w1)"
    using launch r by (simp add: open_sap_logon_def w1_def Let_def same n)
  moreover have "now (polled stub (nat T) w1) - now w = real_of_int (max 0 T)"
    by (simp add: polled_def w1_def record_event_def time max_def)
  moreover have "trace (polled stub (nat T) w1) =
      trace w @ Launch (sap_exe_path a) # concat (replicate (nat T) [GetObject, Sleep 1])"
  proof -
    have "iteration_events stub = (\<lambda>i. [GetObject, Sleep 1])"
      by (rule ext) (rule events)
    then show ?thesis
      by (simp add: polled_def w1_def record_event_def map_replicate_const)
  qed
  ultimately show ?thesis by blast
qed

subsection \<open>The connection opener\<close>

text \<open>
  C2. With an engine handle whose scripting engine is available, the connection opener
  \<^item> fails with the wrapped null-connection \<^verbatim>\<open>SAPConnectionError\<close> when the engine
    returns a null connection, after no session-count check at all;
  \<^item> succeeds after one check when the first count is positive, binding the session
    handle to what \<^verbatim>\<open>Children(0)\<close> returns;
  \<^item> when the first count is not positive, sleeps 3 seconds once and checks exactly once
    more: a positive second count binds the session handle to \<^verbatim>\<open>Children(0)\<close>,
  \<^item> and a second count that is not positive fails with the wrapped no-session
    \<^verbatim>\<open>SAPConnectionError\<close>.
\<close>

theorem connect_to_system_algorithm:
  assumes engine: "sap_gui_app a = Some gui"
    and app: "get_scripting_engine stub = Inr (Some application)"
  shows
    "(open_connection stub (system_name a) = Inr None \<longrightarrow>
        connect_to_system stub a w =
          (Inl (Exn SAPConnectionError
                  (msg_connect_error (system_name a) (msg_null_connection (system_name a)))),
           a\<lparr>connection := None\<rparr>,
           w\<lparr>trace := trace w @ [GetScriptingEngine, OpenConnection (system_name a)]\<rparr>))
   \<and> (open_connection stub (system_name a) = Inr (Some conn)
        \<and> sessions_count stub 0 = Inr n \<and> 0 < n \<and> children stub 0 = Inr child \<longrightarrow>
        connect_to_system stub a w =
          (Inr (), a\<lparr>connection := Some conn, session := child\<rparr>,
           w\<lparr>trace := trace w @ [GetScriptingEngine, OpenConnection (system_name a),
                                   SessionsCount, Children 0]\<rparr>))
   \<and> (open_connection stub (system_name a) = Inr (Some conn)
        \<and> sessions_count stub 0 = Inr n \<and> n \<le> 0
        \<and> sessions_count stub 1 = Inr m \<and> 0 < m \<and> children stub 0 = Inr child \<longrightarrow>
        connect_to_system stub a w =
          (Inr (), a\<lparr>connection := Some conn, session := child\<rparr>,
           w\<lparr>now := now w + 3,
             trace := trace w @ [GetScriptingEngine, OpenConnection (system_name a),
                                 SessionsCount, Sleep 3, SessionsCount, Children 0]\<rparr>))
   \<and> (open_connection stub (system_name a) = Inr (Some conn)
        \<and> sessions_count stub 0 = Inr n \<and> n \<le> 0
        \<and> sessions_count stub 1 = Inr m \<and> m \<le> 0 \<longrightarrow>
        connect_to_system stub a w =
          (Inl (Exn SAPConnectionError
                  (msg_connect_error (system_name a) (msg_no_session (system_name a)))),
           a\<lparr>connection := Some conn\<rparr>,
           w\<lparr>now := now w + 3,
             trace := trace w @ [GetScriptingEngine, OpenConnection (system_name a),
                                 SessionsCount, Sleep 3, SessionsCount]\<rparr>))"
  using assms
  by (simp add: connect_to_system_def connect_body_def bind_child0_def Let_def
      record_event_def sleep_def)

theorem connect_to_system_algorithm_witness:
  "connect_to_system null_connection_stub engine_ready0 world0 =
     (Inl (Exn SAPConnectionError (msg_connect_error ''PRD'' (msg_null_connection ''PRD''))),
      engine_ready0,
      \<lparr>now = 0, trace = [GetScriptingEngine, OpenConnection ''PRD'']\<rparr>)
   \<and> connect_to_system ready_stub engine_ready0 world0 =
     (Inr (), engine_ready0\<lparr>connection := Some 3, session := Some 4\<rparr>,
      \<lparr>now = 0, trace = [GetScriptingEngine, OpenConnection ''PRD'', SessionsCount,
                          Children 0]\<rparr>)
   \<and> connect_to_system late_session_stub engine_ready0 world0 =
     (Inr (), engine_ready0\<lparr>connection := Some 3, session := Some 4\<rparr>,
      \<lparr>now = 3, trace = [GetScriptingEngine, OpenConnection ''PRD'', SessionsCount, Sleep 3,
                          SessionsCount, Children 0]\<rparr>)
   \<and> connect_to_system no_session_stub engine_ready0 world0 =
     (Inl (Exn SAPConnectionError (msg_connect_error ''PRD'' (msg_no_session ''PRD''))),
      engine_ready0\<lparr>connection := Some 3\<rparr>,
      \<lparr>now = 3, trace = [GetScriptingEngine, OpenConnection ''PRD'', SessionsCount, Sleep 3,
                          SessionsCount]\<rparr>)"
  using connect_to_system_algorithm [where a = engine_ready0 and gui = 1
          and stub = null_connection_stub and application = 2 and w = world0]
        connect_to_system_algorithm [where a = engine_ready0 and gui = 1
          and stub = ready_stub and application = 2 and w = world0 and conn = 3 and n = 1
          and child = "Some 4"]
        connect_to_system_algorithm [where a = engine_ready0 and gui = 1
          and stub = late_session_stub and application = 2 and w = world0 and conn = 3
          and n = 0 and m = 1 and child = "Some 4"]
        connect_to_system_algorithm [where a = engine_ready0 and gui = 1
          and stub = no_session_stub and application = 2 and w = world0 and conn = 3
          and n = 0 and m = 0]
  by (simp add: engine_ready0_def automator0_def init_automator_def world0_def
      null_connection_stub_def late_session_stub_def no_session_stub_def ready_stub_def)

subsection \<open>The credential submitter\<close>

lemma mandt_not_found_unclassified:
  "\<not> str_contains ''findById'' msg_mandt_not_found"
  "\<not> str_contains ''element'' (lower msg_mandt_not_found)"
  by (simp_all add: msg_mandt_not_found_def string_eval)

text \<open>
  C6. With a session whose \<^verbatim>\<open>findById\<close> raises for the client-id field, \<^verbatim>\<open>_login\<close>
  fails with a \<^verbatim>\<open>SAPConnectionError\<close> whose message carries the text of the
  login-screen-not-detected error, after the attribute test and that one lookup only:
  no field is set and the submit control is not pressed.
\<close>

theorem login_mandt_not_found:
  assumes sess: "session a = Some s"
    and attr: "has_findById stub"
    and fault: "find_by_id stub mandt_id = Some e"
  shows "\<exists>w'. login stub a w =
                 (Inl (Exn SAPConnectionError (msg_login_unexpected msg_mandt_not_found)), w')
            \<and> trace w' = trace w @ [HasAttr, FindById mandt_id]
            \<and> writes w' = writes w"
  using assms
  by (simp add: login_def login_body_def Let_def mandt_not_found_unclassified record_event_def
      writes_def)

theorem login_mandt_not_found_witness:
  "\<exists>w'. login (lookup_fault_stub mandt_id) connected0 world0 =
          (Inl (Exn SAPConnectionError (msg_login_unexpected msg_mandt_not_found)), w')
        \<and> trace w' = trace world0 @ [HasAttr, FindById mandt_id]
        \<and> writes w' = writes world0"
  using login_mandt_not_found [of connected0 4 "lookup_fault_stub mandt_id" com_fault world0]
  by (simp add: connected0_def lookup_fault_stub_def ready_stub_def)

text \<open>
  What the submitter does with the status line, on a screen where every lookup, write and
  press succeeds. A type other than E, A or X (in either case) is success. A rejecting
  type raises the status \<^verbatim>\<open>SAPConnectionError\<close> inside the \<^verbatim>\<open>try\<close> block, so the
  catch-all handler classifies it again by its text: the class that reaches the caller
  depends on whether the status text holds \<^verbatim>\<open>findById\<close> or \<^verbatim>\<open>element\<close>. Either way
  the message ends with the status text.
\<close>

lemma login_status_outcome:
  assumes "session a = Some s" and "screen_ok stub a"
    and "message_type stub = Inr ty" and "status_text stub = Inr txt"
  shows "fst (login stub a w) =
     (if lower ty \<in> set [''e'', ''a'', ''x'']
      then (if str_contains ''findById'' (msg_login_status txt)
               \<or> str_contains ''element'' (lower (msg_login_status txt))
            then Inl (Exn ValueError (msg_gui_element (msg_login_status txt)))
            else Inl (Exn SAPConnectionError (msg_login_unexpected (msg_login_status txt))))
      else Inr ())"
  using assms
  by (simp add: login_def login_body_def screen_ok_def Let_def)

lemma login_status_message_ends_with_text:
  "\<exists>pre. msg_gui_element (msg_login_status txt) = pre @ txt"
  "\<exists>pre. msg_login_unexpected (msg_login_status txt) = pre @ txt"
  by (simp_all add: msg_gui_element_def msg_login_unexpected_def msg_login_status_def)

text \<open>
  C4. The claim: for every status text, a status line of type E, A or X after the
  submission makes the submitter fail with a \<^verbatim>\<open>SAPConnectionError\<close> whose message
  contains the status text. The code at the status text
  \<^verbatim>\<open>Data element RSYST-BNAME is invalid\<close> with type E: the failure is a
  \<^verbatim>\<open>ValueError\<close>, because the text contains \<^verbatim>\<open>element\<close>.
\<close>

theorem login_status_text_misclassified:
  "login (rejecting_stub ''E'' ''Data element RSYST-BNAME is invalid'') connected0 world0 =
     (Inl (Exn ValueError
             (msg_gui_element (msg_login_status ''Data element RSYST-BNAME is invalid''))),
      \<lparr>now = 1,
       trace = [HasAttr, FindById mandt_id, SetText mandt_id ''300'',
                FindById bname_id, SetText bname_id ''robot'',
                FindById bcode_id, SetText bcode_id ''secret'',
                FindById langu_id, SetText langu_id ''PT'',
                FindById enter_id, Press enter_id, Sleep 1,
                FindById sbar_id, ReadMessageType, ReadText]\<rparr>)"
  by (simp add: login_def login_body_def Let_def rejecting_stub_def ready_stub_def
      connected0_def automator0_def init_automator_def world0_def record_event_def sleep_def
      msg_login_status_def string_eval)

text \<open>
  C5. The claim: a lookup fault at the username field, the secret field, the language
  field, the submit control or the status line makes the submitter fail with a
  \<^verbatim>\<open>ValueError\<close>. The code, when the lookup at any one of these five addresses raises
  the scripting interface's fault (whose text holds neither \<^verbatim>\<open>findById\<close> nor
  \<^verbatim>\<open>element\<close>): the failure is a \<^verbatim>\<open>SAPConnectionError\<close>.
\<close>

theorem login_lookup_fault_misclassified:
  "map (\<lambda>addr. fst (login (lookup_fault_stub addr) connected0 world0))
     [bname_id, bcode_id, langu_id, enter_id, sbar_id] =
   replicate 5 (Inl (Exn SAPConnectionError
                       (msg_login_unexpected ''The control could not be found by id.'')))"
  by (simp add: login_def login_body_def Let_def lookup_fault_stub_def ready_stub_def
      connected0_def automator0_def init_automator_def world0_def record_event_def sleep_def
      com_fault_def string_eval mandt_id_def bname_id_def bcode_id_def langu_id_def
      enter_id_def sbar_id_def numeral_eq_Suc)

subsection \<open>The dialog drain loop\<close>

lemma drained_0: "drained 0 w = w"
  by (simp add: drained_def)

lemma drained_Suc:
  "drained n (record_event (SendVKey 0) (record_event (FindByIdNoRaise wnd1_id) w)) =
   drained (Suc n) w"
  by (simp add: drained_def record_event_def)

lemma key_sends_record_event:
  "key_sends (record_event ev w) = key_sends w + (if is_key_send ev then 1 else 0)"
  by (simp add: key_sends_def record_event_def)

lemma key_sends_drained: "key_sends (drained n w) = key_sends w + n"
  by (induction n) (simp_all add: drained_def key_sends_def)

lemma confirmation_keys_record_event:
  "confirmation_keys (record_event ev w) =
   confirmation_keys w + (if ev = SendVKey 0 then 1 else 0)"
  by (simp add: confirmation_keys_def record_event_def)

lemma confirmation_keys_drained: "confirmation_keys (drained n w) = confirmation_keys w + n"
  by (induction n) (simp_all add: drained_def confirmation_keys_def)

lemma drain_loop_step:
  "keeps_going stub sess i \<Longrightarrow>
   drain_loop stub sess i h w =
   drain_loop stub sess (Suc i) True
     (record_event (SendVKey 0) (record_event (FindByIdNoRaise wnd1_id) w))"
  by (subst drain_loop.simps)
     (auto simp: keeps_going_def modal_present_def lookup_wnd1_def record_lookup_def Let_def
        split: sum.splits option.splits)

lemma drain_loop_skip:
  "(\<And>j. j < n \<Longrightarrow> keeps_going stub sess (i + j)) \<Longrightarrow>
   drain_loop stub sess i h w = drain_loop stub sess (i + n) (h \<or> 0 < n) (drained n w)"
proof (induction n arbitrary: i h w)
  case 0
  then show ?case by (simp add: drained_0)
next
  case (Suc n)
  have first: "keeps_going stub sess i" using Suc.prems [of 0] by simp
  have rest: "\<And>j. j < n \<Longrightarrow> keeps_going stub sess (Suc i + j)"
    using Suc.prems by (metis Suc_less_eq add_Suc_shift)
  show ?case
    by (simp add: drain_loop_step [OF first] Suc.IH [OF rest] drained_Suc)
qed

lemma drain_loop_absent:
  "lookup_wnd1 stub sess i = Inr None \<Longrightarrow>
   drain_loop stub sess i h w = Some (Inr (), h, record_lookup sess wnd1_id w)"
  by (subst drain_loop.simps) (simp add: Let_def)

lemma drain_loop_fault:
  "lookup_wnd1 stub sess i = Inl e \<Longrightarrow>
   drain_loop stub sess i h w = Some (Inl e, h, record_lookup sess wnd1_id w)"
  by (subst drain_loop.simps) (simp add: Let_def)

lemma drain_loop_stops:
  "\<not> keeps_going stub sess i \<Longrightarrow> \<exists>r. drain_loop stub sess i h w = Some r"
  by (subst drain_loop.simps)
     (auto simp: keeps_going_def modal_present_def Let_def split: sum.splits option.splits)

lemma drain_loop_returns:
  assumes "\<not> keeps_going stub sess n"
  shows "\<exists>r. drain_loop stub sess 0 h w = Some r"
proof -
  define m where "m = (LEAST k. \<not> keeps_going stub sess k)"
  have stop: "\<not> keeps_going stub sess m"
    unfolding m_def using assms by (rule LeastI)
  have before: "\<And>j. j < m \<Longrightarrow> keeps_going stub sess (0 + j)"
    unfolding m_def using not_less_Least by fastforce
  show ?thesis
    using drain_loop_skip [OF before, of m h w] drain_loop_stops [OF stop] by simp
qed

text \<open>A run of the loop that returns has met a check at which it does not go on.\<close>

lemma drain_loop_returned:
  assumes "drain_loop stub sess i h w = Some y"
  shows "\<exists>j\<ge>i. \<not> keeps_going stub sess j"
proof (induct rule: drain_loop.raw_induct [OF _ assms])
  case (1 drain stub sess i h w y)
  show ?case
  proof (cases "keeps_going stub sess i")
    case True
    then have "drain stub sess (Suc i) True
        (record_event (SendVKey 0) (record_event (FindByIdNoRaise wnd1_id) w)) = Some y"
      using "1.hyps"(2)
      by (auto simp: keeps_going_def modal_present_def lookup_wnd1_def record_lookup_def Let_def
          split: sum.splits option.splits)
    then obtain j where "Suc i \<le> j" "\<not> keeps_going stub sess j"
      using "1.hyps"(1) by blast
    then show ?thesis by (metis Suc_leD)
  next
    case False
    then show ?thesis by blast
  qed
qed

lemma drain_loop_diverges:
  "(\<And>j. keeps_going stub sess j) \<Longrightarrow> drain_loop stub sess i h w = None"
  using drain_loop_returned [of stub sess i h w] by (cases "drain_loop stub sess i h w") auto

text \<open>
  C3. As stated (the drain loop terminates for every stub, also when the modal window is
  reported present at every check) the claim fails: the loop has no iteration cap. What
  holds: \<^verbatim>\<open>check_msgBox\<close> returns exactly when there is a check at which the modal
  window is not found (it is absent, or the lookup raises) or after which the key-send
  raises. When the window is present at every check and every key-send succeeds, the
  call never returns.
\<close>

theorem check_msgBox_returns_iff:
  "(\<exists>r. check_msgBox stub sess w = Some r) = (\<exists>j. \<not> keeps_going stub sess j)"
proof
  assume "\<exists>r. check_msgBox stub sess w = Some r"
  then obtain y where "drain_loop stub sess 0 False w = Some y"
    by (auto simp: check_msgBox_def split: option.splits)
  then show "\<exists>j. \<not> keeps_going stub sess j"
    using drain_loop_returned by blast
next
  assume "\<exists>j. \<not> keeps_going stub sess j"
  then obtain r where "drain_loop stub sess 0 False w = Some r"
    using drain_loop_returns by blast
  then show "\<exists>r. check_msgBox stub sess w = Some r"
    by (cases r) (auto simp: check_msgBox_def split: sum.splits)
qed

theorem check_msgBox_returns_iff_witness:
  "\<exists>r. check_msgBox two_dialogs_stub (Some 4) world0 = Some r"
proof -
  have "\<not> keeps_going two_dialogs_stub (Some 4) 2"
    by (simp add: keeps_going_def modal_present_def lookup_wnd1_def two_dialogs_stub_def)
  then show ?thesis
    using check_msgBox_returns_iff [of two_dialogs_stub "Some 4" world0] by blast
qed

text \<open>The stub that reports the modal window at every check: the call does not return.\<close>

theorem check_msgBox_persistent_dialog:
  "check_msgBox persistent_dialog_stub (Some 4) world0 = None"
proof -
  have "\<And>j. keeps_going persistent_dialog_stub (Some 4) j"
    by (simp add: keeps_going_def modal_present_def lookup_wnd1_def persistent_dialog_stub_def
        ready_stub_def)
  then show ?thesis
    by (simp add: check_msgBox_def drain_loop_diverges)
qed

text \<open>
  C7. As stated for every \<open>N \<ge> 0\<close> the claim fails at \<open>N = 0\<close>, where the result is
  false. What holds: when the modal window is present at the checks \<open>0, \<dots>, N - 1\<close> and
  absent at check \<open>N\<close>, and the key-sends succeed, \<^verbatim>\<open>check_msgBox\<close> makes \<open>N + 1\<close> checks,
  sends the confirmation key (virtual key 0) after each of the first \<open>N\<close>, sends no
  other key, and returns whether \<open>N\<close> is positive: true for \<open>N \<ge> 1\<close>, and for \<open>N = 0\<close>
  (nothing to dismiss) false with no key sent.
\<close>

theorem check_msgBox_key_sends:
  assumes present: "\<forall>j<N. \<exists>msgBox. wnd1_lookup stub j = Inr (Some msgBox)"
    and absent: "wnd1_lookup stub N = Inr None"
    and keys: "\<forall>j<N. send_vkey stub j = None"
  shows "\<exists>w'. check_msgBox stub (Some s) w = Some (Inr (0 < N), w')
            \<and> now w' = now w
            \<and> trace w' =
                trace w @ concat (replicate N [FindByIdNoRaise wnd1_id, SendVKey 0])
                  @ [FindByIdNoRaise wnd1_id]
            \<and> confirmation_keys w' = confirmation_keys w + N
            \<and> key_sends w' = key_sends w + N"
proof -
  have going: "\<And>j. j < N \<Longrightarrow> keeps_going stub (Some s) (0 + j)"
    using present keys by (auto simp: keeps_going_def modal_present_def lookup_wnd1_def)
  have "drain_loop stub (Some s) 0 False w =
        Some (Inr (), 0 < N, record_event (FindByIdNoRaise wnd1_id) (drained N w))"
    using drain_loop_skip [OF going, of N False w] absent
    by (simp add: drain_loop_absent lookup_wnd1_def record_lookup_def)
  then show ?thesis
    by (simp add: check_msgBox_def key_sends_drained key_sends_record_event
        confirmation_keys_drained confirmation_keys_record_event)
       (simp add: drained_def record_event_def)
qed

theorem check_msgBox_key_sends_witness:
  "\<exists>w'. check_msgBox two_dialogs_stub (Some 4) world0 = Some (Inr (0 < (2::nat)), w')
        \<and> now w' = now world0
        \<and> trace w' =
            trace world0 @ concat (replicate 2 [FindByIdNoRaise wnd1_id, SendVKey 0])
              @ [FindByIdNoRaise wnd1_id]
        \<and> confirmation_keys w' = confirmation_keys world0 + 2
        \<and> key_sends w' = key_sends world0 + 2"
proof -
  have present: "\<forall>j<2. \<exists>msgBox. wnd1_lookup two_dialogs_stub j = Inr (Some msgBox)"
    by (simp add: two_dialogs_stub_def)
  have absent: "wnd1_lookup two_dialogs_stub 2 = Inr None"
    by (simp add: two_dialogs_stub_def)
  have keys: "\<forall>j<2. send_vkey two_dialogs_stub j = None"
    by (simp add: two_dialogs_stub_def ready_stub_def)
  show ?thesis
    using check_msgBox_key_sends [OF present absent keys] .
qed

text \<open>
  The stub that reports the modal window for exactly zero checks and then absent: no key
  is sent and the result is false, not true.
\<close>

theorem check_msgBox_nothing_handled:
  "wnd1_lookup ready_stub 0 = Inr None \<and>
   check_msgBox ready_stub (Some 4) world0 =
     Some (Inr False, record_event (FindByIdNoRaise wnd1_id) world0)"
  by (simp add: check_msgBox_def drain_loop_absent lookup_wnd1_def record_lookup_def
      ready_stub_def)

subsection \<open>Best-effort cleanup\<close>

text \<open>
  C8. Neither \<^verbatim>\<open>check_msgBox\<close> nor \<^verbatim>\<open>close_connection\<close> raises, whatever the stub does.
  A call of \<^verbatim>\<open>check_msgBox\<close> that returns, returns a boolean; when a lookup fault ends
  the loop after \<open>n\<close> dismissed dialogs, it does return, with the boolean \<open>0 < n\<close>.
  \<^verbatim>\<open>close_connection\<close> always returns normally, also when its close calls raise, and
  afterwards the session handle and the connection handle are null (the engine handle
  is not touched by \<^verbatim>\<open>close_connection\<close>).
\<close>

theorem cleanup_never_raises:
  "(check_msgBox stub sess w = None \<or> (\<exists>b w'. check_msgBox stub sess w = Some (Inr b, w')))
   \<and> ((\<forall>j<n. keeps_going stub sess j) \<and> (\<exists>e. lookup_wnd1 stub sess n = Inl e)
        \<longrightarrow> (\<exists>w'. check_msgBox stub sess w = Some (Inr (0 < n), w')))
   \<and> (\<exists>a' w'. close_connection stub a w = (Inr (), a', w')
         \<and> session a' = None \<and> connection a' = None \<and> sap_gui_app a' = sap_gui_app a)"
proof (intro conjI impI)
  show "check_msgBox stub sess w = None \<or> (\<exists>b w'. check_msgBox stub sess w = Some (Inr b, w'))"
    by (auto simp: check_msgBox_def split: option.splits sum.splits)
next
  assume h: "(\<forall>j<n. keeps_going stub sess j) \<and> (\<exists>e. lookup_wnd1 stub sess n = Inl e)"
  then obtain e where e: "lookup_wnd1 stub sess n = Inl e" by blast
  have going: "\<And>j. j < n \<Longrightarrow> keeps_going stub sess (0 + j)" using h by simp
  have "drain_loop stub sess 0 False w =
        Some (Inl e, 0 < n, record_lookup sess wnd1_id (drained n w))"
    using drain_loop_skip [OF going, of n False w] by (simp add: drain_loop_fault [OF e])
  then show "\<exists>w'. check_msgBox stub sess w = Some (Inr (0 < n), w')"
    by (simp add: check_msgBox_def)
next
  show "\<exists>a' w'. close_connection stub a w = (Inr (), a', w')
         \<and> session a' = None \<and> connection a' = None \<and> sap_gui_app a' = sap_gui_app a"
    using close_connection_result [of stub a w] by auto
qed

text \<open>
  An instance: two dialogs are dismissed, then the lookup raises; the window close raises
  and the connection close would raise too.
\<close>

theorem cleanup_never_raises_witness:
  "(\<exists>w'. check_msgBox failing_cleanup_stub (Some 4) world0 = Some (Inr True, w'))
   \<and> (\<exists>a' w'. close_connection failing_cleanup_stub connected0 world0 = (Inr (), a', w')
         \<and> session a' = None \<and> connection a' = None \<and> sap_gui_app a' = Some 1)"
proof -
  have "(\<forall>j<2. keeps_going failing_cleanup_stub (Some 4) j)
        \<and> (\<exists>e. lookup_wnd1 failing_cleanup_stub (Some 4) 2 = Inl e)"
    by (simp add: keeps_going_def modal_present_def lookup_wnd1_def failing_cleanup_stub_def
        ready_stub_def)
  then show ?thesis
    using cleanup_never_raises [of failing_cleanup_stub "Some 4" world0 2 connected0]
    by (simp add: connected0_def)
qed

end
